theory Spec2Isabelle
  imports Complex_Main
begin

section \<open>Shared schema\<close>

text \<open>
  \<^verbatim>\<open>AI_MODELS = ["grok", "chatgpt", "claude"]\<close> and the display name of each model taken
  from \<^verbatim>\<open>AI_MODEL_ROLES\<close> (shared/schema.ts). The three string literals of a vote are
  the constructors \<open>Approve\<close>, \<open>Reject\<close>, \<open>Abstain\<close>; the lower-case names are used for
  the fields of the vote summary below.
\<close>

datatype AIModel = grok | chatgpt | claude


fun role_name :: "AIModel \<Rightarrow> string" where
  "role_name grok = ''Grok''"
| "role_name chatgpt = ''ChatGPT''"
| "role_name claude = ''Claude''"

datatype Vote = Approve | Reject | Abstain

fun vote_text :: "Vote \<Rightarrow> string" where
  "vote_text Approve = ''approve''"
| "vote_text Reject = ''reject''"
| "vote_text Abstain = ''abstain''"

datatype Outcome = approved | rejected | needs_revision

record VoteSummary =
  approve :: nat
  reject :: nat
  abstain :: nat

section \<open>Runtime notions\<close>

subsection \<open>Strings and arrays\<close>

text \<open>Decimal rendering of an integer, as a template literal renders an integral number.\<close>

definition digit_char :: "nat \<Rightarrow> char" where
  "digit_char d = (''0123456789'' ! d)"

fun string_of_nat :: "nat \<Rightarrow> string" where
  "string_of_nat n =
     (if n < 10 then [digit_char n]
      else string_of_nat (n div 10) @ [digit_char (n mod 10)])"

definition string_of_int :: "int \<Rightarrow> string" where
  "string_of_int i = (if i < 0 then CHR ''-'' # string_of_nat (nat (- i)) else string_of_nat (nat i))"

text \<open>\<^verbatim>\<open>Array.prototype.join\<close> on strings.\<close>

fun join :: "string \<Rightarrow> string list \<Rightarrow> string" where
  "join sep [] = []"
| "join sep [x] = x"
| "join sep (x # y # ys) = x @ sep @ join sep (y # ys)"

text \<open>
  \<^verbatim>\<open>Array.from(new Set(xs))\<close>: a Set keeps the first insertion of every element, in
  insertion order. (\<open>remdups\<close> of the list library keeps the last occurrence instead.)
\<close>

fun unique_first :: "'a list \<Rightarrow> 'a list \<Rightarrow> 'a list" where
  "unique_first seen [] = rev seen"
| "unique_first seen (x # xs) =
     (if x \<in> set seen then unique_first seen xs else unique_first (x # seen) xs)"

definition array_from_set :: "'a list \<Rightarrow> 'a list" where
  "array_from_set xs = unique_first [] xs"

subsection \<open>Exceptions and promises\<close>

text \<open>What a rejected promise carries: an \<^verbatim>\<open>Error\<close> with its message, or any other value.\<close>

datatype thrown = JSError string | NonError

text \<open>
  \<^verbatim>\<open>Promise.all\<close> over the voters' promises: all results in the order of the models, or
  a rejection. When several voters fail, the program sees the rejection that happens
  first in time; the model reports the first one in the order of the models.
\<close>

fun promise_all :: "(thrown + 'a) list \<Rightarrow> thrown + 'a list" where
  "promise_all [] = Inr []"
| "promise_all (Inl e # ps) = Inl e"
| "promise_all (Inr x # ps) = (case promise_all ps of Inl e \<Rightarrow> Inl e | Inr xs \<Rightarrow> Inr (x # xs))"

fun error_message :: "thrown \<Rightarrow> string" where
  "error_message (JSError msg) = msg"
| "error_message NonError = ''Unknown error''"

subsection \<open>JSON values and their coercions\<close>

text \<open>
  A value returned by \<^verbatim>\<open>JSON.parse\<close>. A number is the real number that the double
  denotes (an infinite value, which \<^verbatim>\<open>JSON.parse\<close> returns for a literal beyond the range
  of doubles, compares like any number beyond the constants it is compared with; NaN is
  never returned by \<^verbatim>\<open>JSON.parse\<close>).
\<close>

datatype json =
    JNull
  | JBool bool
  | JNumber real
  | JString string
  | JArray "json list"
  | JObject "(string \<times> json) list"

text \<open>
  The two conversions of the language that depend on the representation of doubles are
  parameters: the text of a number, and the number that a string denotes (\<open>None\<close> is NaN).
\<close>

record Runtime =
  Number_toString :: "real \<Rightarrow> string"
  StringToNumber :: "string \<Rightarrow> real option"

text \<open>Truthiness, as \<^verbatim>\<open>||\<close> tests it.\<close>

fun ToBoolean :: "json \<Rightarrow> bool" where
  "ToBoolean JNull = False"
| "ToBoolean (JBool b) = b"
| "ToBoolean (JNumber x) = (x \<noteq> 0)"
| "ToBoolean (JString s) = (s \<noteq> [])"
| "ToBoolean (JArray xs) = True"
| "ToBoolean (JObject members) = True"

text \<open>The text of a value, as a template literal renders it.\<close>

fun ToString :: "Runtime \<Rightarrow> json \<Rightarrow> string" where
  "ToString js JNull = ''null''"
| "ToString js (JBool b) = (if b then ''true'' else ''false'')"
| "ToString js (JNumber x) = Number_toString js x"
| "ToString js (JString s) = s"
| "ToString js (JArray xs) = join '','' (map (\<lambda>x. if x = JNull then [] else ToString js x) xs)"
| "ToString js (JObject members) = ''[object Object]''"

text \<open>
  The number of a value, as a comparison with a number takes it: \<open>None\<close> is NaN. An array
  is converted through its text, and an object has no number.
\<close>

fun ToNumber :: "Runtime \<Rightarrow> json \<Rightarrow> real option" where
  "ToNumber js JNull = Some 0"
| "ToNumber js (JBool b) = Some (if b then 1 else 0)"
| "ToNumber js (JNumber x) = Some x"
| "ToNumber js (JString s) = StringToNumber js s"
| "ToNumber js (JArray xs) = StringToNumber js (ToString js (JArray xs))"
| "ToNumber js (JObject members) = None"

text \<open>
  \<^verbatim>\<open>v > k\<close> and \<^verbatim>\<open>v <= k\<close> for a value \<open>v\<close> and a number \<open>k\<close>: both are false when \<open>v\<close> has
  no number.
\<close>

definition exceeds :: "Runtime \<Rightarrow> json \<Rightarrow> real \<Rightarrow> bool" where
  "exceeds js v k = (case ToNumber js v of None \<Rightarrow> False | Some x \<Rightarrow> x > k)"

definition at_most :: "Runtime \<Rightarrow> json \<Rightarrow> real \<Rightarrow> bool" where
  "at_most js v k = (case ToNumber js v of None \<Rightarrow> False | Some x \<Rightarrow> x \<le> k)"

section \<open>Deliberation service (ai-deliberation)\<close>

text \<open>
  \<^verbatim>\<open>interface AIDeliberationResult\<close>. The fields \<open>model\<close>, \<open>reasoning\<close> and \<open>confidence\<close>
  carry the prefix \<open>r_\<close> because other records of the program use the same field names.
  The confidence is an integer: its only producer, \<open>parseAIResponse\<close>, computes it with
  \<^verbatim>\<open>parseInt\<close>.
\<close>

record AIDeliberationResult =
  r_model :: AIModel
  vote :: Vote
  r_reasoning :: string
  r_confidence :: int
  risks :: "string list"
  recommendations :: "string list"

record ConsensusData =
  outcome :: Outcome
  unanimity :: bool
  voteSummary :: VoteSummary
  synthesizedReasoning :: string
  actionItems :: "string list"

subsection \<open>calculateConsensus\<close>

definition reasoning_line :: "AIDeliberationResult \<Rightarrow> string" where
  "reasoning_line r =
     role_name (r_model r) @ '' ('' @ vote_text (vote r) @ '', '' @ string_of_int (r_confidence r)
       @ ''% confidence): '' @ r_reasoning r"

definition calculateConsensus :: "AIDeliberationResult list \<Rightarrow> ConsensusData" where
  "calculateConsensus responses =
     (let summary = \<lparr> approve = length (filter (\<lambda>r. vote r = Approve) responses),
                       reject = length (filter (\<lambda>r. vote r = Reject) responses),
                       abstain = length (filter (\<lambda>r. vote r = Abstain) responses) \<rparr>;
          oc = (if approve summary \<ge> 2 then approved
                else if reject summary \<ge> 2 then rejected
                else needs_revision);
          un = (approve summary = 3 \<or> reject summary = 3)
      in \<lparr> outcome = oc,
           unanimity = un,
           voteSummary = summary,
           synthesizedReasoning = join [CHR 0x0A, CHR 0x0A] (map reasoning_line responses),
           actionItems = array_from_set (concat (map recommendations responses)) \<rparr>)"

subsection \<open>parseAIResponse\<close>

text \<open>
  Strings are lists of 8-bit characters; the white space that \<^verbatim>\<open>trim\<close> and \<^verbatim>\<open>parseInt\<close>
  skip is, among these, tab, line feed, vertical tab, form feed, carriage return, space
  and the no-break space.
\<close>

definition is_white_space :: "char \<Rightarrow> bool" where
  "is_white_space c = (of_char c \<in> {9, 10, 11, 12, 13, 32, 160 :: nat})"

definition trim :: "string \<Rightarrow> string" where
  "trim s = rev (dropWhile is_white_space (rev (dropWhile is_white_space s)))"

definition startsWith :: "string \<Rightarrow> string \<Rightarrow> bool" where
  "startsWith s p = (take (length p) s = p)"

definition endsWith :: "string \<Rightarrow> string \<Rightarrow> bool" where
  "endsWith s p = (length p \<le> length s \<and> drop (length s - length p) s = p)"

definition fence :: string where
  "fence = ''```''"

text \<open>The text handed to \<^verbatim>\<open>JSON.parse\<close>: trimmed, without a leading or trailing code fence.\<close>

definition strip_fences :: "string \<Rightarrow> string" where
  "strip_fences content =
     (let jsonStr = trim content;
          opened = (if startsWith jsonStr (fence @ ''json'') then drop 7 jsonStr
                    else if startsWith jsonStr fence then drop 3 jsonStr
                    else jsonStr);
          closed = (if endsWith opened fence then take (length opened - 3) opened else opened)
      in trim closed)"

text \<open>
  \<^verbatim>\<open>parseInt(x)\<close> with no radix, on the string that \<open>x\<close> converts to: leading white space
  is skipped, then an optional sign, then \<open>0x\<close> or \<open>0X\<close> selects radix 16, and the longest
  prefix of digits of the radix is read. \<open>None\<close> is NaN (no digit). The value is an exact
  integer; a double that rounds a longer digit string is zero, negative or above 100
  exactly when the integer is.
\<close>

definition digit_of :: "nat \<Rightarrow> char \<Rightarrow> nat option" where
  "digit_of radix c =
     (let n = of_char c :: nat;
          v = (if 48 \<le> n \<and> n \<le> 57 then Some (n - 48)
               else if 97 \<le> n \<and> n \<le> 122 then Some (n - 87)
               else if 65 \<le> n \<and> n \<le> 90 then Some (n - 55)
               else None)
      in case v of None \<Rightarrow> None | Some d \<Rightarrow> if d < radix then Some d else None)"

fun read_digits :: "nat \<Rightarrow> string \<Rightarrow> nat list" where
  "read_digits radix [] = []"
| "read_digits radix (c # cs) =
     (case digit_of radix c of None \<Rightarrow> [] | Some d \<Rightarrow> d # read_digits radix cs)"

definition digits_value :: "nat \<Rightarrow> nat list \<Rightarrow> nat" where
  "digits_value radix ds = fold (\<lambda>d acc. acc * radix + d) ds 0"

fun strip_sign :: "string \<Rightarrow> int \<times> string" where
  "strip_sign [] = (1, [])"
| "strip_sign (c # cs) =
     (if c = CHR ''-'' then (- 1, cs) else if c = CHR ''+'' then (1, cs) else (1, c # cs))"

definition strip_prefix :: "string \<Rightarrow> nat \<times> string" where
  "strip_prefix s = (if take 2 s = ''0x'' \<or> take 2 s = ''0X'' then (16, drop 2 s) else (10, s))"

definition parseInt :: "string \<Rightarrow> int option" where
  "parseInt inputString =
     (let (sign, unsigned) = strip_sign (dropWhile is_white_space inputString);
          (radix, rest) = strip_prefix unsigned;
          Z = read_digits radix rest
      in if Z = [] then None else Some (sign * int (digits_value radix Z)))"

text \<open>\<^verbatim>\<open>Math.min(100, Math.max(0, parseInt(field) || 50))\<close>; NaN and 0 are falsy.\<close>

definition clamp_confidence :: "string \<Rightarrow> int" where
  "clamp_confidence field =
     min 100 (max 0 (case parseInt field of None \<Rightarrow> 50 | Some n \<Rightarrow> if n = 0 then 50 else n))"

text \<open>
  The object that \<^verbatim>\<open>JSON.parse\<close> returns, as \<open>parseAIResponse\<close> reads it: the vote and the
  reasoning when they are strings (a reasoning of another type, which the program passes
  on as it is, is read as absent), the string that the confidence field converts to
  (\<open>undefined\<close> when the field is absent), and the two lists when they are arrays. The
  function \<^verbatim>\<open>JSON.parse\<close> itself is a parameter; \<open>Inl\<close> stands for every exception raised
  inside the \<^verbatim>\<open>try\<close> block.
\<close>

record DeliberationPayload =
  f_vote :: "string option"
  f_reasoning :: "string option"
  f_confidence :: string
  f_risks :: "string list option"
  f_recommendations :: "string list option"

record ParsedResponse =
  pv_vote :: Vote
  pv_reasoning :: string
  pv_confidence :: int
  pv_risks :: "string list"
  pv_recommendations :: "string list"

definition vote_of_field :: "string option \<Rightarrow> Vote" where
  "vote_of_field v =
     (if v = Some ''approve'' then Approve
      else if v = Some ''reject'' then Reject
      else Abstain)"

definition parseAIResponse :: "(string \<Rightarrow> thrown + DeliberationPayload) \<Rightarrow> string \<Rightarrow> ParsedResponse" where
  "parseAIResponse JSON_parse content =
     (case JSON_parse (strip_fences content) of
        Inr parsed \<Rightarrow>
          \<lparr> pv_vote = vote_of_field (f_vote parsed),
            pv_reasoning = (case f_reasoning parsed of
                              None \<Rightarrow> ''No reasoning provided''
                            | Some t \<Rightarrow> if t = [] then ''No reasoning provided'' else t),
            pv_confidence = clamp_confidence (f_confidence parsed),
            pv_risks = (case f_risks parsed of None \<Rightarrow> [] | Some xs \<Rightarrow> xs),
            pv_recommendations = (case f_recommendations parsed of None \<Rightarrow> [] | Some xs \<Rightarrow> xs) \<rparr>
      | Inl e \<Rightarrow>
          \<lparr> pv_vote = Abstain,
            pv_reasoning = (if content = [] then ''Failed to generate response'' else content),
            pv_confidence = 50,
            pv_risks = [''Response parsing failed''],
            pv_recommendations = [''Review manually''] \<rparr>)"

subsection \<open>getModelResponse and deliberate\<close>

text \<open>
  \<open>chat\<close> is the call of the reasoning service for the decision at hand: the content of
  the first choice (empty when absent) or what the call threw. Every failure is thrown
  again as an \<^verbatim>\<open>Error\<close> whose message names the voter.
\<close>

definition getModelResponse ::
  "(AIModel \<Rightarrow> thrown + string) \<Rightarrow> (string \<Rightarrow> thrown + DeliberationPayload) \<Rightarrow> AIModel
     \<Rightarrow> thrown + AIDeliberationResult" where
  "getModelResponse chat JSON_parse m =
     (case (case chat m of
              Inl e \<Rightarrow> Inl e
            | Inr content \<Rightarrow>
                if content = [] then Inl (JSError (''Empty response from '' @ role_name m))
                else Inr (parseAIResponse JSON_parse content)) of
        Inl e \<Rightarrow> Inl (JSError (role_name m @ '' failed: '' @ error_message e))
      | Inr parsed \<Rightarrow>
          Inr \<lparr> r_model = m,
                vote = pv_vote parsed,
                r_reasoning = pv_reasoning parsed,
                r_confidence = pv_confidence parsed,
                risks = pv_risks parsed,
                recommendations = pv_recommendations parsed \<rparr>)"

definition deliberate ::
  "(AIModel \<Rightarrow> thrown + string) \<Rightarrow> (string \<Rightarrow> thrown + DeliberationPayload)
     \<Rightarrow> thrown + AIDeliberationResult list" where
  "deliberate chat JSON_parse = promise_all (map (getModelResponse chat JSON_parse) [grok, chatgpt, claude])"

subsection \<open>Reference notions and sample inputs\<close>

text \<open>A fenced reply, a parser that knows two payloads, and a reasoning service.\<close>

definition sample_content :: string where
  \<open>sample_content = ''```json {"vote":"approve","confidence":150} ```''\<close>

definition sample_JSON_parse :: "string \<Rightarrow> thrown + DeliberationPayload" where
  \<open>sample_JSON_parse s =
     (if s = ''{"vote":"approve","confidence":150}''
      then Inr \<lparr> f_vote = Some ''approve'', f_reasoning = None, f_confidence = ''150'',
                 f_risks = None, f_recommendations = None \<rparr>
      else if s = ''{"vote":"reject","confidence":"high"}''
      then Inr \<lparr> f_vote = Some ''reject'', f_reasoning = None, f_confidence = ''high'',
                 f_risks = None, f_recommendations = None \<rparr>
      else Inl (JSError ''Unexpected token''))\<close>

fun sample_chat :: "AIModel \<Rightarrow> thrown + string" where
  "sample_chat grok = Inr sample_content"
| \<open>sample_chat chatgpt = Inr ''{"vote":"reject","confidence":"high"}''\<close>
| "sample_chat claude = Inr ''I abstain.''"

text \<open>A deliberation result with the given voter and vote, for concrete instances.\<close>

definition ballot :: "AIModel \<Rightarrow> Vote \<Rightarrow> AIDeliberationResult" where
  "ballot m v = \<lparr> r_model = m, vote = v, r_reasoning = ''because'', r_confidence = 70,
                  risks = [], recommendations = [] \<rparr>"

text \<open>The number of votes of one kind among three ballots, counted independently of the code.\<close>

definition tally3 :: "Vote \<Rightarrow> AIDeliberationResult \<Rightarrow> AIDeliberationResult \<Rightarrow> AIDeliberationResult \<Rightarrow> nat" where
  "tally3 v r1 r2 r3 = count_list [vote r1, vote r2, vote r3] v"

section \<open>Storage layer (storage)\<close>

subsection \<open>Data\<close>

datatype DecisionStatus = pending | deliberating | consensus_reached | deadlock

datatype Category = architecture | feature | refactor | security | performance | dependency | other

datatype Priority = low | medium | high | critical

text \<open>
  \<^verbatim>\<open>InsertAIResponse\<close> and \<^verbatim>\<open>AIResponse\<close>, which adds the generated fields. The fields
  carry the prefix \<open>a_\<close> where another record has the same name.
\<close>

record InsertAIResponse =
  decisionId :: string
  a_model :: AIModel
  a_vote :: Vote
  a_reasoning :: string
  a_confidence :: real
  a_risks :: "string list option"
  a_recommendations :: "string list option"

record AIResponse = InsertAIResponse +
  a_id :: string
  a_createdAt :: string

text \<open>
  \<^verbatim>\<open>InsertDecision\<close> and the stored \<^verbatim>\<open>Decision\<close>. The stored object also has the fields
  \<open>responses\<close> and \<open>consensus\<close>, which stay at their initial values (empty, null) and are
  replaced by the contents of the two other maps whenever a decision is returned; they
  are left out of the record.
\<close>

record InsertDecision =
  title :: string
  description :: string
  d_context :: "string option"
  category :: Category
  priority :: Priority

record Decision = InsertDecision +
  dec_id :: string
  status :: DecisionStatus
  createdAt :: string
  updatedAt :: string


record InsertConsensus =
  k_outcome :: Outcome
  k_unanimity :: bool
  k_voteSummary :: VoteSummary
  k_synthesizedReasoning :: string
  k_actionItems :: "string list option"

record Consensus = InsertConsensus +
  k_id :: string
  k_decisionId :: string
  k_createdAt :: string

datatype ActivityType =
    decision_created
  | deliberation_started
  | deliberation_completed
  | consensus_approved
  | consensus_rejected
  | consensus_needs_revision
  | decision_deleted

text \<open>The three shapes of metadata that the storage writes into the log.\<close>

datatype Metadata =
    CategoryPriority Category Priority
  | UnanimityVotes bool VoteSummary
  | Unanimity bool

record ActivityLog =
  l_id :: string
  l_type :: ActivityType
  l_decisionId :: "string option"
  l_decisionTitle :: "string option"
  l_outcome :: "string option"
  l_metadata :: "Metadata option"
  l_timestamp :: string

record MemStorage =
  decisions :: "string \<rightharpoonup> Decision"
  aiResponses :: "string \<rightharpoonup> AIResponse list"
  consensuses :: "string \<rightharpoonup> Consensus"
  activityLogs :: "ActivityLog list"




subsection \<open>Methods of MemStorage\<close>

definition logActivity ::
  "MemStorage \<Rightarrow> ActivityType \<Rightarrow> string option \<Rightarrow> string option \<Rightarrow> string option
     \<Rightarrow> Metadata option \<Rightarrow> string \<Rightarrow> string \<Rightarrow> MemStorage" where
  "logActivity s ty did dtitle oc meta uuid now =
     s\<lparr> activityLogs := activityLogs s @
          [\<lparr> l_id = uuid, l_type = ty, l_decisionId = did, l_decisionTitle = dtitle,
             l_outcome = oc, l_metadata = meta, l_timestamp = now \<rparr>] \<rparr>"


definition getAIResponses :: "MemStorage \<Rightarrow> string \<Rightarrow> AIResponse list" where
  "getAIResponses s did = (case aiResponses s did of None \<Rightarrow> [] | Some rs \<Rightarrow> rs)"

definition getDecision ::
  "MemStorage \<Rightarrow> string \<Rightarrow> (Decision \<times> AIResponse list \<times> Consensus option) option" where
  "getDecision s did =
     (case decisions s did of
        None \<Rightarrow> None
      | Some decision \<Rightarrow> Some (decision, getAIResponses s did, consensuses s did))"






subsection \<open>Histories of calls\<close>




subsection \<open>Reference notions and sample inputs\<close>







section \<open>Autonomous engine (autonomous-engine)\<close>

subsection \<open>Data\<close>

text \<open>
  \<^verbatim>\<open>type ActionType\<close>; \<open>actionCounts\<close> is created with its five keys in the order of
  \<open>ACTION_KEYS\<close>, which is the order in which \<^verbatim>\<open>Object.entries\<close> visits them.
\<close>

datatype ActionType = buyback | burn | hold | sell_partial | claim_rewards

definition ACTION_KEYS :: "ActionType list" where
  "ACTION_KEYS = [buyback, burn, hold, sell_partial, claim_rewards]"

fun action_text :: "ActionType \<Rightarrow> string" where
  "action_text buyback = ''buyback''"
| "action_text burn = ''burn''"
| "action_text hold = ''hold''"
| "action_text sell_partial = ''sell_partial''"
| "action_text claim_rewards = ''claim_rewards''"

fun model_text :: "AIModel \<Rightarrow> string" where
  "model_text grok = ''grok''"
| "model_text chatgpt = ''chatgpt''"
| "model_text claude = ''claude''"

fun model_upper :: "AIModel \<Rightarrow> string" where
  "model_upper grok = ''GROK''"
| "model_upper chatgpt = ''CHATGPT''"
| "model_upper claude = ''CLAUDE''"

text \<open>
  The records follow the declared interfaces, except for the confidence of a
  recommendation: the interface declares a \<^verbatim>\<open>number\<close>, but \<open>getAIRecommendation\<close> stores
  whatever value \<^verbatim>\<open>JSON.parse\<close> returned, unchecked, and the program then compares it
  with 30 and 50. The confidence is therefore a JSON value. The action, the reasoning
  and the amount are read at their declared types.
\<close>

record WalletBalance =
  sol :: real
  lamports :: real

record TokenInfo =
  mint :: string
  t_name :: string
  symbol :: string
  t_createdAt :: string

record MarketData =
  price :: real
  marketCap :: real
  volume24h :: real
  priceChange24h :: real
  holders :: real

record AutonomousContext =
  balance :: WalletBalance
  token :: "TokenInfo option"
  market :: "MarketData option"
  recentDecisions :: "string list"
  c_timestamp :: string

record AIActionRecommendation =
  model :: AIModel
  action :: ActionType
  reasoning :: string
  confidence :: json
  amount :: "real option"

record AutonomousDecision =
  d_id :: string
  d_action :: ActionType
  d_reasoning :: string
  votes :: VoteSummary
  executed :: bool
  result :: "string option"
  timestamp :: string

record ActionConsensus =
  c_action :: ActionType
  c_reasoning :: string
  c_votes :: VoteSummary

text \<open>
  The object returned by \<^verbatim>\<open>JSON.parse\<close> for a recommendation, read at the declared
  types; \<open>None\<close> is an absent field.
\<close>

record RecommendationPayload =
  p_action :: "ActionType option"
  p_reasoning :: "string option"
  p_confidence :: "json option"
  p_amount :: "real option"

text \<open>The calls of the trading module that \<open>executeAction\<close> makes, and their result.\<close>

datatype trade_call =
    buyToken string real
  | sellToken string string
  | burnTokens string nat
  | claimCreatorFees string

record TradeResult =
  success :: bool
  signature :: "string option"
  error :: "string option"

text \<open>
  Everything outside the engine that one cycle reads: the wallet, the market, the clock,
  the reasoning service (the content of the first choice, the empty string when absent,
  or what the call threw), the library function \<^verbatim>\<open>JSON.parse\<close>, the
  conversions of the language, and the trading endpoint.
\<close>

record World =
  getWalletState_token :: "TokenInfo option"
  getBalance :: WalletBalance
  getMarketData :: "string \<Rightarrow> MarketData option"
  toISOString_context :: string
  Date_now :: nat
  toISOString_decision :: string
  chat_completion :: "AIModel \<Rightarrow> AutonomousContext \<Rightarrow> thrown + string"
  JSON_parse :: "string \<Rightarrow> thrown + RecommendationPayload"
  runtime :: Runtime
  trade :: "trade_call \<Rightarrow> TradeResult"

subsection \<open>getAIRecommendation\<close>

text \<open>
  \<^verbatim>\<open>content.match(/\{[\s\S]*\}/)\<close>: the match starts at the first opening brace and, the
  star being greedy over every character, ends at the last closing brace after it.
\<close>

definition match_braces :: "string \<Rightarrow> string option" where
  "match_braces content =
     (let from_open = dropWhile (\<lambda>c. c \<noteq> CHR ''{'') content;
          to_close = rev (dropWhile (\<lambda>c. c \<noteq> CHR ''}'') (rev from_open))
      in if to_close = [] then None else Some to_close)"

definition getAIRecommendation ::
  "World \<Rightarrow> AIModel \<Rightarrow> AutonomousContext \<Rightarrow> thrown + AIActionRecommendation" where
  "getAIRecommendation w m context =
     (case chat_completion w m context of
        Inl e \<Rightarrow> Inl e
      | Inr content \<Rightarrow>
          (case match_braces content of
             None \<Rightarrow> Inl (JSError (''No JSON found in '' @ model_text m @ '' response''))
           | Some jsonMatch \<Rightarrow>
               (case JSON_parse w jsonMatch of
                  Inl e \<Rightarrow> Inl e
                | Inr parsed \<Rightarrow>
                    Inr \<lparr> model = m,
                          action = (case p_action parsed of None \<Rightarrow> hold | Some a \<Rightarrow> a),
                          reasoning = (case p_reasoning parsed of
                                         None \<Rightarrow> ''No reasoning provided''
                                       | Some t \<Rightarrow> if t = [] then ''No reasoning provided'' else t),
                          confidence = (case p_confidence parsed of
                                          None \<Rightarrow> JNumber 50
                                        | Some v \<Rightarrow> if ToBoolean v then v else JNumber 50),
                          amount = p_amount parsed \<rparr>)))"

subsection \<open>determineConsensusAction\<close>

definition actionCounts_init :: "(ActionType \<times> nat) list" where
  "actionCounts_init = map (\<lambda>a. (a, 0)) ACTION_KEYS"

definition increment :: "ActionType \<Rightarrow> (ActionType \<times> nat) list \<Rightarrow> (ActionType \<times> nat) list" where
  "increment a counts = map (\<lambda>(k, n). if k = a then (k, n + 1) else (k, n)) counts"

text \<open>The first loop: one pass over the recommendations.\<close>

fun count_loop :: "Runtime \<Rightarrow> AIActionRecommendation list \<Rightarrow> (ActionType \<times> nat) list \<Rightarrow> (ActionType \<times> nat) list" where
  "count_loop js [] counts = counts"
| "count_loop js (rec # recs) counts =
     count_loop js recs (if exceeds js (confidence rec) 30 then increment (action rec) counts else counts)"

text \<open>The second loop over the entries; the state is \<open>(consensusAction, maxVotes)\<close>.\<close>

fun max_loop :: "(ActionType \<times> nat) list \<Rightarrow> ActionType \<times> nat \<Rightarrow> ActionType \<times> nat" where
  "max_loop [] st = st"
| "max_loop ((a, n) # entries) (consensusAction, maxVotes) =
     max_loop entries (if n > maxVotes then (a, n) else (consensusAction, maxVotes))"

definition recommendation_line :: "Runtime \<Rightarrow> AIActionRecommendation \<Rightarrow> string" where
  "recommendation_line js r =
     model_upper (model r) @ '': '' @ action_text (action r) @ '' ('' @ ToString js (confidence r)
       @ ''%) - '' @ reasoning r"

definition determineConsensusAction ::
  "Runtime \<Rightarrow> AIActionRecommendation list \<Rightarrow> ActionConsensus" where
  "determineConsensusAction js recs =
     (let actionCounts = count_loop js recs actionCounts_init;
          (leader, maxVotes) = max_loop actionCounts (hold, 0);
          consensusAction = (if maxVotes < 2 then hold else leader)
      in \<lparr> c_action = consensusAction,
           c_reasoning = join [CHR 0x0A, CHR 0x0A] (map (recommendation_line js) recs),
           c_votes = \<lparr> approve = length (filter (\<lambda>r. action r = consensusAction \<and> exceeds js (confidence r) 50)
                                            recs),
                       reject = length (filter (\<lambda>r. action r \<noteq> consensusAction \<and> exceeds js (confidence r) 50)
                                           recs),
                       abstain = length (filter (\<lambda>r. at_most js (confidence r) 50) recs) \<rparr> \<rparr>)"

subsection \<open>executeAction\<close>

text \<open>An absent \<open>signature\<close> or \<open>error\<close> is rendered by the template literal as \<open>undefined\<close>.\<close>

fun template_text :: "string option \<Rightarrow> string" where
  "template_text None = ''undefined''"
| "template_text (Some t) = t"

text \<open>
  The function returns the result text together with the trading calls it made, in order.
  The arithmetic on the balance is that of the real numbers.
\<close>

definition executeAction :: "World \<Rightarrow> ActionType \<Rightarrow> AutonomousContext \<Rightarrow> string \<times> trade_call list" where
  "executeAction w act context =
     (case token context of
        None \<Rightarrow> (''No token created yet - cannot execute action'', [])
      | Some tok \<Rightarrow>
          (case act of
             buyback \<Rightarrow>
               if sol (balance context) < 0.01 then (''Insufficient SOL for buyback'', [])
               else
                 let buyAmount = min (sol (balance context) * 0.1) 0.1;
                     call = buyToken (mint tok) buyAmount;
                     buyResult = trade w call
                 in (if success buyResult
                     then ''Buyback executed: '' @ Number_toString (runtime w) buyAmount @ '' SOL - tx: ''
                            @ template_text (signature buyResult)
                     else ''Buyback failed: '' @ template_text (error buyResult), [call])
           | sell_partial \<Rightarrow>
               let call = sellToken (mint tok) ''10%'';
                   sellResult = trade w call
               in (if success sellResult
                   then ''Sell executed: 10% of tokens - tx: '' @ template_text (signature sellResult)
                   else ''Sell failed: '' @ template_text (error sellResult), [call])
           | burn \<Rightarrow>
               let call = burnTokens (mint tok) 10;
                   burnResult = trade w call
               in (if success burnResult
                   then ''Burn executed: 10% of tokens permanently burned - tx: ''
                          @ template_text (signature burnResult)
                   else ''Burn failed: '' @ template_text (error burnResult), [call])
           | claim_rewards \<Rightarrow>
               let call = claimCreatorFees ''pump'';
                   claimResult = trade w call
               in (if success claimResult
                   then ''Creator fees claimed - tx: '' @ template_text (signature claimResult)
                   else ''Claim failed: '' @ template_text (error claimResult), [call])
           | hold \<Rightarrow> (''No action taken - HOLD'', [])))"

subsection \<open>runAutonomousCycle\<close>

text \<open>\<^verbatim>\<open>lastDecisions.unshift(d)\<close> followed by the cut to 100 entries.\<close>

definition unshift_capped :: "AutonomousDecision \<Rightarrow> AutonomousDecision list \<Rightarrow> AutonomousDecision list" where
  "unshift_capped d lastDecisions =
     (let pushed = d # lastDecisions
      in if length pushed > 100 then take 100 pushed else pushed)"

definition gather_context :: "World \<Rightarrow> AutonomousDecision list \<Rightarrow> AutonomousContext" where
  "gather_context w lastDecisions =
     \<lparr> balance = getBalance w,
       token = getWalletState_token w,
       market = (case getWalletState_token w of None \<Rightarrow> None | Some tok \<Rightarrow> getMarketData w (mint tok)),
       recentDecisions = map (\<lambda>d. action_text (d_action d)) (take 5 lastDecisions),
       c_timestamp = toISOString_context w \<rparr>"

definition ask_models :: "World \<Rightarrow> AutonomousContext \<Rightarrow> thrown + AIActionRecommendation list" where
  "ask_models w context = promise_all (map (\<lambda>m. getAIRecommendation w m context) [grok, chatgpt, claude])"

text \<open>
  One cycle, run on the history \<open>lastDecisions\<close>: the decision it returns, the history
  after the push, and the trading calls made.
\<close>

record CycleResult =
  decision :: AutonomousDecision
  history :: "AutonomousDecision list"
  trades :: "trade_call list"

definition runAutonomousCycle :: "World \<Rightarrow> AutonomousDecision list \<Rightarrow> CycleResult" where
  "runAutonomousCycle w lastDecisions =
     (let context = gather_context w lastDecisions
      in case ask_models w context of
           Inl err \<Rightarrow>
             let errorMsg = error_message err;
                 failedDecision =
                   \<lparr> d_id = ''auto-'' @ string_of_nat (Date_now w),
                     d_action = hold,
                     d_reasoning = ''Cycle aborted: AI deliberation failed - '' @ errorMsg,
                     votes = \<lparr> approve = 0, reject = 0, abstain = 3 \<rparr>,
                     executed = False,
                     result = Some (''ERROR: '' @ errorMsg),
                     timestamp = toISOString_decision w \<rparr>
             in \<lparr> decision = failedDecision,
                  history = unshift_capped failedDecision lastDecisions,
                  trades = [] \<rparr>
         | Inr recs \<Rightarrow>
             let consensus = determineConsensusAction (runtime w) recs;
                 (res, exec, calls) =
                    (if c_action consensus \<noteq> hold \<and> approve (c_votes consensus) \<ge> 2
                     then (let (msg, made) = executeAction w (c_action consensus) context
                           in (msg, True, made))
                     else (''Action not executed - HOLD consensus'', False, []));
                 d = \<lparr> d_id = ''auto-'' @ string_of_nat (Date_now w),
                       d_action = c_action consensus,
                       d_reasoning = c_reasoning consensus,
                       votes = c_votes consensus,
                       executed = exec,
                       result = Some res,
                       timestamp = toISOString_decision w \<rparr>
             in \<lparr> decision = d,
                  history = unshift_capped d lastDecisions,
                  trades = calls \<rparr>)"

subsection \<open>Reference notions and sample inputs\<close>

text \<open>
  The number of qualifying votes for an action, and the highest such number, stated
  independently of the loops: a vote qualifies when its confidence has a number above 30.
\<close>

definition qualifying :: "Runtime \<Rightarrow> AIActionRecommendation list \<Rightarrow> ActionType \<Rightarrow> nat" where
  "qualifying js recs a = length (filter (\<lambda>r. action r = a \<and> exceeds js (confidence r) 30) recs)"

definition max_count :: "Runtime \<Rightarrow> AIActionRecommendation list \<Rightarrow> nat" where
  "max_count js recs = fold max (map (qualifying js recs) ACTION_KEYS) 0"

definition integral_text :: "real \<Rightarrow> string" where
  "integral_text x = string_of_int \<lfloor>x\<rfloor>"

text \<open>
  A runtime for the instances. Its conversion of strings is the one of the language on
  the strings that consist of decimal digits and on the strings that contain no digit;
  the instances use no other string.
\<close>

definition decimal_number :: "string \<Rightarrow> real option" where
  "decimal_number s =
     (if s \<noteq> [] \<and> list_all (\<lambda>c. digit_of 10 c \<noteq> None) s
      then Some (real (digits_value 10 (read_digits 10 s)))
      else None)"

definition sample_runtime :: Runtime where
  "sample_runtime = \<lparr> Number_toString = integral_text, StringToNumber = decimal_number \<rparr>"

definition recommends_value :: "AIModel \<Rightarrow> ActionType \<Rightarrow> json \<Rightarrow> AIActionRecommendation" where
  "recommends_value m a v =
     \<lparr> model = m, action = a, reasoning = ''because'', confidence = v, amount = None \<rparr>"

definition recommends :: "AIModel \<Rightarrow> ActionType \<Rightarrow> real \<Rightarrow> AIActionRecommendation" where
  "recommends m a c = recommends_value m a (JNumber c)"

definition scripted_world :: "(AIModel \<Rightarrow> thrown + RecommendationPayload) \<Rightarrow> World" where
  "scripted_world script =
     \<lparr> getWalletState_token = Some \<lparr> mint = ''MintAddr'', t_name = ''Dev Cubed'', symbol = ''DEV3'',
                                      t_createdAt = ''2025-01-01T00:00:00.000Z'' \<rparr>,
       getBalance = \<lparr> sol = 2, lamports = 2000000000 \<rparr>,
       getMarketData = (\<lambda>m. None),
       toISOString_context = ''2025-01-02T00:00:00.000Z'',
       Date_now = 1735776000000,
       toISOString_decision = ''2025-01-02T00:00:01.000Z'',
       chat_completion = (\<lambda>m context. case script m of
                                          Inl e \<Rightarrow> Inl e
                                        | Inr p \<Rightarrow> Inr (''Answer: {'' @ model_text m @ ''} done'')),
       JSON_parse = (\<lambda>s. if s = ''{grok}'' then script grok
                          else if s = ''{chatgpt}'' then script chatgpt
                          else if s = ''{claude}'' then script claude
                          else Inl (JSError ''Unexpected token'')),
       runtime = sample_runtime,
       trade = (\<lambda>c. \<lparr> success = True, signature = Some ''5sig'', error = None \<rparr>) \<rparr>"

definition payload_value :: "ActionType \<Rightarrow> json \<Rightarrow> RecommendationPayload" where
  "payload_value a v = \<lparr> p_action = Some a, p_reasoning = Some ''because'', p_confidence = Some v,
                         p_amount = None \<rparr>"

definition payload :: "ActionType \<Rightarrow> real \<Rightarrow> RecommendationPayload" where
  "payload a c = payload_value a (JNumber c)"

fun buyback_script :: "AIModel \<Rightarrow> thrown + RecommendationPayload" where
  "buyback_script grok = Inr (payload buyback 80)"
| "buyback_script chatgpt = Inr (payload buyback 60)"
| "buyback_script claude = Inr (payload hold 90)"

fun lukewarm_script :: "AIModel \<Rightarrow> thrown + RecommendationPayload" where
  "lukewarm_script grok = Inr (payload buyback 50)"
| "lukewarm_script chatgpt = Inr (payload buyback 60)"
| "lukewarm_script claude = Inr (payload hold 90)"

fun failing_script :: "AIModel \<Rightarrow> thrown + RecommendationPayload" where
  "failing_script grok = Inr (payload buyback 80)"
| "failing_script chatgpt = Inl (JSError ''429 rate limit'')"
| "failing_script claude = Inr (payload hold 90)"

text \<open>A reply whose confidence is the word \<open>high\<close> instead of a number.\<close>

fun vague_script :: "AIModel \<Rightarrow> thrown + RecommendationPayload" where
  "vague_script grok = Inr (payload buyback 80)"
| "vague_script chatgpt = Inr (payload buyback 60)"
| "vague_script claude = Inr (payload_value hold (JString ''high''))"

fun overconfident_script :: "AIModel \<Rightarrow> thrown + RecommendationPayload" where
  "overconfident_script grok = Inr (payload buyback 150)"
| "overconfident_script chatgpt = Inr (payload buyback 60)"
| "overconfident_script claude = Inr (payload hold 90)"


section \<open>Consensus calculator: properties\<close>

text \<open>
  Claim C1. For three votes, the outcome of \<open>calculateConsensus\<close> is \<open>approved\<close> when at
  least two votes approve, otherwise \<open>rejected\<close> when at least two votes reject, and
  \<open>needs_revision\<close> in every other case.
\<close>

theorem C1_outcome_rule:
  "outcome (calculateConsensus [r1, r2, r3]) =
     (if 2 \<le> tally3 Approve r1 r2 r3 then approved
      else if 2 \<le> tally3 Reject r1 r2 r3 then rejected
      else needs_revision)"
  by (simp add: calculateConsensus_def tally3_def Let_def)

text \<open>
  Claim C2. For three votes, the unanimity flag is true exactly when all three votes
  approve or all three votes reject, that is, when the approve count or the reject count
  is three.
\<close>

theorem C2_unanimity_rule:
  "unanimity (calculateConsensus [r1, r2, r3]) =
     ((vote r1 = Approve \<and> vote r2 = Approve \<and> vote r3 = Approve)
      \<or> (vote r1 = Reject \<and> vote r2 = Reject \<and> vote r3 = Reject))
   \<and> unanimity (calculateConsensus [r1, r2, r3]) =
     (tally3 Approve r1 r2 r3 = 3 \<or> tally3 Reject r1 r2 r3 = 3)"
  by (simp add: calculateConsensus_def tally3_def Let_def)

text \<open>
  Claim C3, as stated: \<open>needs_revision\<close> arises only from a 1/1/1 split or from two
  abstentions with one further vote. Three abstentions also give \<open>needs_revision\<close>: the
  approve count and the reject count are both zero, so the final branch is taken.
\<close>

theorem C3_three_abstentions_counterexample:
  "outcome (calculateConsensus [ballot grok Abstain, ballot chatgpt Abstain, ballot claude Abstain])
     = needs_revision
   \<and> \<not> ((tally3 Approve (ballot grok Abstain) (ballot chatgpt Abstain) (ballot claude Abstain) = 1
          \<and> tally3 Reject (ballot grok Abstain) (ballot chatgpt Abstain) (ballot claude Abstain) = 1
          \<and> tally3 Abstain (ballot grok Abstain) (ballot chatgpt Abstain) (ballot claude Abstain) = 1)
        \<or> (tally3 Abstain (ballot grok Abstain) (ballot chatgpt Abstain) (ballot claude Abstain) = 2
          \<and> tally3 Approve (ballot grok Abstain) (ballot chatgpt Abstain) (ballot claude Abstain)
            + tally3 Reject (ballot grok Abstain) (ballot chatgpt Abstain) (ballot claude Abstain) = 1))"
  by (simp add: calculateConsensus_def tally3_def ballot_def Let_def)

text \<open>
  Claim C3, amended. For three votes the outcome is \<open>needs_revision\<close> exactly when the
  split is 1/1/1, or two voters abstain and the third approves or rejects, or all three
  abstain; that is, exactly when neither approve nor reject reaches two.
\<close>

theorem C3_needs_revision_splits:
  "(outcome (calculateConsensus [r1, r2, r3]) = needs_revision) =
     ((tally3 Approve r1 r2 r3 = 1 \<and> tally3 Reject r1 r2 r3 = 1 \<and> tally3 Abstain r1 r2 r3 = 1)
      \<or> (tally3 Abstain r1 r2 r3 = 2 \<and> tally3 Approve r1 r2 r3 + tally3 Reject r1 r2 r3 = 1)
      \<or> tally3 Abstain r1 r2 r3 = 3)"
  by (cases "vote r1"; cases "vote r2"; cases "vote r3";
      simp add: calculateConsensus_def tally3_def Let_def)

section \<open>Autonomous engine: properties\<close>

lemma exceeds_JNumber [simp]: "exceeds js (JNumber x) k = (x > k)"
  by (simp add: exceeds_def)

lemma at_most_JNumber [simp]: "at_most js (JNumber x) k = (x \<le> k)"
  by (simp add: at_most_def)

lemma qualifying_Nil: "qualifying js [] a = 0"
  by (simp add: qualifying_def)

lemma qualifying_Cons:
  "qualifying js (r # recs) a =
     (if action r = a \<and> exceeds js (confidence r) 30 then 1 else 0) + qualifying js recs a"
  by (simp add: qualifying_def)

lemma count_loop_adds:
  "count_loop js recs counts = map (\<lambda>(k, n). (k, n + qualifying js recs k)) counts"
proof (induction recs arbitrary: counts)
  case Nil
  show ?case by (simp add: qualifying_Nil)
next
  case (Cons r recs)
  show ?case
    by (simp add: Cons.IH increment_def qualifying_Cons case_prod_unfold comp_def)
qed

lemma actionCounts_tally:
  "count_loop js recs actionCounts_init = map (\<lambda>a. (a, qualifying js recs a)) ACTION_KEYS"
  by (simp add: count_loop_adds actionCounts_init_def comp_def)

lemma max_loop_snd: "snd (max_loop es (a0, m0)) = fold max (map snd es) m0"
proof (induction es arbitrary: a0 m0)
  case Nil
  show ?case by simp
next
  case (Cons e es)
  obtain k n where e: "e = (k, n)" by (cases e)
  show ?case
    by (simp add: e Cons.IH max_def)
qed

lemma fold_max_ge: "(m0::nat) \<le> fold max ns m0"
proof (induction ns arbitrary: m0)
  case Nil
  show ?case by simp
next
  case (Cons n ns)
  have "max n m0 \<le> fold max ns (max n m0)" by (rule Cons.IH)
  then show ?case by simp
qed

lemma max_loop_keep: "max_loop es (a0, m0) = (a, m) \<Longrightarrow> m = m0 \<Longrightarrow> a = a0"
proof (induction es arbitrary: a0 m0)
  case Nil
  then show ?case by simp
next
  case (Cons e es)
  obtain k n where e: "e = (k, n)" by (cases e)
  show ?case
  proof (cases "n > m0")
    case True
    with Cons.prems e have run: "max_loop es (k, n) = (a, m)" by simp
    have "n \<le> snd (max_loop es (k, n))"
      unfolding max_loop_snd by (rule fold_max_ge)
    with run have "n \<le> m" by simp
    with True Cons.prems(2) show ?thesis by simp
  next
    case False
    with Cons.prems e have "max_loop es (a0, m0) = (a, m)" by simp
    then show ?thesis using Cons.IH Cons.prems(2) by blast
  qed
qed

lemma max_loop_first:
  "max_loop es (a0, m0) = (a, m) \<Longrightarrow> m0 < m \<Longrightarrow> find (\<lambda>e. snd e = m) es = Some (a, m)"
proof (induction es arbitrary: a0 m0)
  case Nil
  then show ?case by simp
next
  case (Cons e es)
  obtain k n where e: "e = (k, n)" by (cases e)
  show ?case
  proof (cases "n > m0")
    case True
    with Cons.prems e have run: "max_loop es (k, n) = (a, m)" by simp
    show ?thesis
    proof (cases "m = n")
      case True
      with run have "a = k" using max_loop_keep by blast
      with True e show ?thesis by simp
    next
      case False
      have "n \<le> snd (max_loop es (k, n))"
        unfolding max_loop_snd by (rule fold_max_ge)
      with run False have "n < m" by simp
      then have "find (\<lambda>e. snd e = m) es = Some (a, m)"
        using Cons.IH run by blast
      with False e show ?thesis by simp
    qed
  next
    case False
    with Cons.prems e have run: "max_loop es (a0, m0) = (a, m)" by simp
    then have "find (\<lambda>e. snd e = m) es = Some (a, m)"
      using Cons.IH Cons.prems(2) by blast
    moreover from False Cons.prems(2) have "n \<noteq> m" by simp
    ultimately show ?thesis using e by simp
  qed
qed

lemma find_over_map: "find P (map f xs) = map_option f (find (\<lambda>x. P (f x)) xs)"
  by (induction xs) auto

lemma leader_is_first_max:
  assumes "max_loop (count_loop js recs actionCounts_init) (hold, 0) = (a, m)"
  shows "m = max_count js recs"
    and "0 < m \<Longrightarrow> find (\<lambda>k. qualifying js recs k = max_count js recs) ACTION_KEYS = Some a"
    and "m = 0 \<Longrightarrow> a = hold"
proof -
  let ?es = "map (\<lambda>a. (a, qualifying js recs a)) ACTION_KEYS"
  from assms have run: "max_loop ?es (hold, 0) = (a, m)"
    by (simp add: actionCounts_tally)
  have "snd (max_loop ?es (hold, 0)) = fold max (map snd ?es) 0"
    by (rule max_loop_snd)
  with run show m: "m = max_count js recs"
    by (simp add: max_count_def comp_def)
  show "a = hold" if "m = 0"
    using max_loop_keep [OF run] that by simp
  show "find (\<lambda>k. qualifying js recs k = max_count js recs) ACTION_KEYS = Some a" if "0 < m"
  proof -
    have "find (\<lambda>e. snd e = m) ?es = Some (a, m)"
      using max_loop_first [OF run that] .
    then have "map_option (\<lambda>a. (a, qualifying js recs a)) (find (\<lambda>k. qualifying js recs k = m) ACTION_KEYS) = Some (a, m)"
      by (simp add: find_over_map)
    then show ?thesis using m by auto
  qed
qed


lemma qualifying_filter:
  "qualifying js (filter (\<lambda>r. exceeds js (confidence r) 30) recs) a = qualifying js recs a"
  by (induction recs) (simp_all add: qualifying_Nil qualifying_Cons)

lemma c_action_from_tally:
  "c_action (determineConsensusAction js recs) =
     (case max_loop (count_loop js recs actionCounts_init) (hold, 0) of
        (leader, maxVotes) \<Rightarrow> if maxVotes < 2 then hold else leader)"
  by (simp add: determineConsensusAction_def Let_def split: prod.splits)

lemma max_count_less_iff: "max_count js recs < n \<longleftrightarrow> 0 < n \<and> (\<forall>a. qualifying js recs a < n)"
proof -
  have all: "(\<forall>a. P a) = (P buyback \<and> P burn \<and> P hold \<and> P sell_partial \<and> P claim_rewards)" for P
    by (metis ActionType.exhaust)
  show ?thesis
    unfolding all by (auto simp: max_count_def ACTION_KEYS_def)
qed

text \<open>
  Claim C4. In \<open>determineConsensusAction\<close> the tally of an action counts exactly the
  recommendations for it whose confidence is strictly greater than 30, so the chosen
  action is the same when the other recommendations are removed; and when no action has
  two qualifying votes (the leader has 0 or 1), the chosen action is \<open>hold\<close>, whichever
  action led.
\<close>

theorem C4_tally_and_quorum_floor:
  "count_loop js recs actionCounts_init = map (\<lambda>a. (a, qualifying js recs a)) ACTION_KEYS
   \<and> c_action (determineConsensusAction js recs)
       = c_action (determineConsensusAction js (filter (\<lambda>r. exceeds js (confidence r) 30) recs))
   \<and> ((\<forall>a. qualifying js recs a < 2) \<longrightarrow> c_action (determineConsensusAction js recs) = hold)"
proof (intro conjI impI)
  show "count_loop js recs actionCounts_init = map (\<lambda>a. (a, qualifying js recs a)) ACTION_KEYS"
    by (rule actionCounts_tally)
  show "c_action (determineConsensusAction js recs)
       = c_action (determineConsensusAction js (filter (\<lambda>r. exceeds js (confidence r) 30) recs))"
    by (simp add: c_action_from_tally actionCounts_tally qualifying_filter)
  assume low: "\<forall>a. qualifying js recs a < 2"
  obtain a m where run: "max_loop (count_loop js recs actionCounts_init) (hold, 0) = (a, m)"
    by (cases "max_loop (count_loop js recs actionCounts_init) (hold, 0)")
  have "m = max_count js recs" using leader_is_first_max(1) [OF run] .
  with low have "m < 2" by (simp add: max_count_less_iff)
  with run show "c_action (determineConsensusAction js recs) = hold"
    by (simp add: c_action_from_tally)
qed

text \<open>
  An instance: two recommendations for buyback, one of them at confidence 30, which does not qualify, and one
  for burn. Buyback leads with a single qualifying vote and the action is \<open>hold\<close>.
\<close>

theorem C4_witness:
  "qualifying sample_runtime [recommends grok buyback 80, recommends chatgpt burn 80, recommends claude buyback 30] buyback = 1
   \<and> c_action (determineConsensusAction sample_runtime
        [recommends grok buyback 80, recommends chatgpt burn 80, recommends claude buyback 30]) = hold"
proof -
  let ?recs = "[recommends grok buyback 80, recommends chatgpt burn 80, recommends claude buyback 30]"
  have low: "\<forall>a. qualifying sample_runtime ?recs a < 2"
  proof
    fix a show "qualifying sample_runtime ?recs a < 2"
      by (cases a) (simp_all add: qualifying_def recommends_def recommends_value_def)
  qed
  have "qualifying sample_runtime ?recs buyback = 1"
    by (simp add: qualifying_def recommends_def recommends_value_def)
  then show ?thesis
    using C4_tally_and_quorum_floor [of sample_runtime ?recs] low by blast
qed

text \<open>
  Claim C5, as stated: with three recommendations above confidence 30 for three different
  actions, the winner is the first of them in the enumeration order. For buyback, burn and
  sell_partial that would be buyback; the chosen action is \<open>hold\<close>, because the leader has
  one vote and the quorum floor applies.
\<close>

theorem C5_three_way_tie_counterexample:
  "c_action (determineConsensusAction sample_runtime
      [recommends grok buyback 80, recommends chatgpt burn 80, recommends claude sell_partial 80]) = hold
   \<and> c_action (determineConsensusAction sample_runtime
      [recommends grok buyback 80, recommends chatgpt burn 80, recommends claude sell_partial 80]) \<noteq> buyback"
  by (simp add: determineConsensusAction_def recommends_def recommends_value_def actionCounts_init_def ACTION_KEYS_def
        increment_def Let_def)

lemma qualifying_distinct:
  assumes "\<forall>r\<in>set recs. exceeds js (confidence r) 30" and "distinct (map action recs)"
  shows "qualifying js recs a = (if a \<in> set (map action recs) then 1 else 0)"
  using assms
proof (induction recs)
  case Nil
  show ?case by (simp add: qualifying_Nil)
next
  case (Cons r recs)
  then show ?case by (auto simp: qualifying_Cons)
qed

text \<open>
  Claim C5, amended. The action with the most qualifying votes, the first in the
  enumeration order among those with the highest count, is chosen when that count is at
  least two; below two the chosen action is \<open>hold\<close>. Given three recommendations above
  confidence 30 for three different actions, the leader found by the tally loop is the
  first of these actions in the enumeration order, and the chosen action is \<open>hold\<close>.
\<close>

theorem C5_plurality_with_floor:
  "(2 \<le> max_count js recs \<longrightarrow>
      find (\<lambda>a. qualifying js recs a = max_count js recs) ACTION_KEYS
        = Some (c_action (determineConsensusAction js recs)))
   \<and> (max_count js recs < 2 \<longrightarrow> c_action (determineConsensusAction js recs) = hold)
   \<and> (length recs = 3 \<and> (\<forall>r\<in>set recs. exceeds js (confidence r) 30) \<and> distinct (map action recs) \<longrightarrow>
        find (\<lambda>a. a \<in> set (map action recs)) ACTION_KEYS
          = Some (fst (max_loop (count_loop js recs actionCounts_init) (hold, 0)))
        \<and> c_action (determineConsensusAction js recs) = hold)"
proof -
  obtain a m where run: "max_loop (count_loop js recs actionCounts_init) (hold, 0) = (a, m)"
    by (cases "max_loop (count_loop js recs actionCounts_init) (hold, 0)")
  note lead = leader_is_first_max [OF run]
  have act: "c_action (determineConsensusAction js recs) = (if m < 2 then hold else a)"
    using run by (simp add: c_action_from_tally)
  have one: "2 \<le> max_count js recs \<longrightarrow>
      find (\<lambda>a. qualifying js recs a = max_count js recs) ACTION_KEYS
        = Some (c_action (determineConsensusAction js recs))"
    using lead(1) lead(2) act by auto
  have two: "max_count js recs < 2 \<longrightarrow> c_action (determineConsensusAction js recs) = hold"
    using lead(1) act by simp
  have three: "find (\<lambda>a. a \<in> set (map action recs)) ACTION_KEYS
          = Some (fst (max_loop (count_loop js recs actionCounts_init) (hold, 0)))
        \<and> c_action (determineConsensusAction js recs) = hold"
    if len: "length recs = 3" and conf: "\<forall>r\<in>set recs. exceeds js (confidence r) 30"
      and dist: "distinct (map action recs)"
  proof -
    have q: "qualifying js recs k = (if k \<in> set (map action recs) then 1 else 0)" for k
      using qualifying_distinct [OF conf dist] .
    from len obtain r where r: "r \<in> set recs" by (cases recs) auto
    then have "qualifying js recs (action r) = 1" by (simp add: q)
    then have ge: "\<not> max_count js recs < 1"
      unfolding max_count_less_iff by (metis less_irrefl)
    have "max_count js recs < 2"
      unfolding max_count_less_iff by (simp add: q)
    with ge have mc: "max_count js recs = 1" by simp
    with lead(1) have m: "m = 1" by simp
    then have "find (\<lambda>k. qualifying js recs k = max_count js recs) ACTION_KEYS = Some a"
      using lead(2) by simp
    moreover have "(qualifying js recs k = max_count js recs) = (k \<in> set (map action recs))" for k
      by (simp add: mc q)
    ultimately have "find (\<lambda>k. k \<in> set (map action recs)) ACTION_KEYS = Some a"
      by simp
    with run act m show ?thesis by simp
  qed
  from one two three show ?thesis by blast
qed

lemma promise_all_Inl: "promise_all ps = Inl e \<Longrightarrow> Inl e \<in> set ps"
proof (induction ps rule: promise_all.induct)
  case 1
  then show ?case by simp
next
  case (2 e' ps)
  then show ?case by simp
next
  case (3 x ps)
  then show ?case by (auto split: sum.splits)
qed

lemma promise_all_Inr: "promise_all ps = Inr xs \<Longrightarrow> ps = map Inr xs"
proof (induction ps arbitrary: xs rule: promise_all.induct)
  case 1
  then show ?case by simp
next
  case (2 e' ps)
  then show ?case by simp
next
  case (3 x ps)
  then show ?case by (auto split: sum.splits)
qed

lemma ask_models_Inl:
  "ask_models w context = Inl e \<Longrightarrow> \<exists>m. getAIRecommendation w m context = Inl e"
proof -
  assume "ask_models w context = Inl e"
  then have "Inl e \<in> set (map (\<lambda>m. getAIRecommendation w m context) [grok, chatgpt, claude])"
    unfolding ask_models_def by (rule promise_all_Inl)
  then show ?thesis by (auto simp: eq_commute)
qed

lemma ask_models_Inr:
  assumes "ask_models w context = Inr recs"
  shows "length recs = 3" and "getAIRecommendation w m context \<in> Inr ` set recs"
proof -
  from assms have eq: "map (\<lambda>m. getAIRecommendation w m context) [grok, chatgpt, claude] = map Inr recs"
    unfolding ask_models_def by (rule promise_all_Inr)
  then have "length (map (\<lambda>m. getAIRecommendation w m context) [grok, chatgpt, claude]) = length (map Inr recs)"
    by simp
  then show "length recs = 3" by simp
  have "getAIRecommendation w m context \<in> set (map (\<lambda>m. getAIRecommendation w m context) [grok, chatgpt, claude])"
    by (cases m) simp_all
  with eq show "getAIRecommendation w m context \<in> Inr ` set recs" by simp
qed

lemma ask_models_fails:
  assumes "isl (getAIRecommendation w m context)"
  shows "\<exists>e. ask_models w context = Inl e"
proof (cases "ask_models w context")
  case (Inl e)
  then show ?thesis by blast
next
  case (Inr recs)
  from ask_models_Inr(2) [OF Inr, of m] assms show ?thesis by auto
qed

lemma unshift_capped_take: "unshift_capped d h = take 100 (d # h)"
  by (simp add: unshift_capped_def Let_def)

lemma display_tally_total:
  assumes "\<forall>r\<in>set recs. ToNumber js (confidence r) \<noteq> None"
  shows "length (filter (\<lambda>r. action r = a \<and> exceeds js (confidence r) 50) recs)
   + length (filter (\<lambda>r. action r \<noteq> a \<and> exceeds js (confidence r) 50) recs)
   + length (filter (\<lambda>r. at_most js (confidence r) 50) recs) = length recs"
  using assms by (induction recs) (auto simp: exceeds_def at_most_def)

lemma c_votes_display:
  "c_votes (determineConsensusAction js recs) =
     \<lparr> approve = length (filter (\<lambda>r. action r = c_action (determineConsensusAction js recs)
                                       \<and> exceeds js (confidence r) 50) recs),
       reject = length (filter (\<lambda>r. action r \<noteq> c_action (determineConsensusAction js recs)
                                      \<and> exceeds js (confidence r) 50) recs),
       abstain = length (filter (\<lambda>r. at_most js (confidence r) 50) recs) \<rparr>"
  by (simp add: determineConsensusAction_def Let_def split: prod.splits)

lemma votes_total:
  assumes "\<forall>r\<in>set recs. ToNumber js (confidence r) \<noteq> None"
  shows "approve (c_votes (determineConsensusAction js recs))
   + reject (c_votes (determineConsensusAction js recs))
   + abstain (c_votes (determineConsensusAction js recs)) = length recs"
  unfolding c_votes_display
  using display_tally_total [OF assms, of "c_action (determineConsensusAction js recs)"] by simp

lemma cycle_success:
  assumes "ask_models w (gather_context w h) = Inr recs"
  shows "decision (runAutonomousCycle w h) =
           (let consensus = determineConsensusAction (runtime w) recs;
                gate = (c_action consensus \<noteq> hold \<and> 2 \<le> approve (c_votes consensus))
            in \<lparr> d_id = ''auto-'' @ string_of_nat (Date_now w),
                 d_action = c_action consensus,
                 d_reasoning = c_reasoning consensus,
                 votes = c_votes consensus,
                 executed = gate,
                 result = Some (if gate then fst (executeAction w (c_action consensus) (gather_context w h))
                                else ''Action not executed - HOLD consensus''),
                 timestamp = toISOString_decision w \<rparr>)"
    and "trades (runAutonomousCycle w h) =
           (let consensus = determineConsensusAction (runtime w) recs
            in if c_action consensus \<noteq> hold \<and> 2 \<le> approve (c_votes consensus)
               then snd (executeAction w (c_action consensus) (gather_context w h)) else [])"
    and "history (runAutonomousCycle w h) = take 100 (decision (runAutonomousCycle w h) # h)"
proof -
  let ?c = "determineConsensusAction (runtime w) recs"
  show "decision (runAutonomousCycle w h) =
           (let consensus = determineConsensusAction (runtime w) recs;
                gate = (c_action consensus \<noteq> hold \<and> 2 \<le> approve (c_votes consensus))
            in \<lparr> d_id = ''auto-'' @ string_of_nat (Date_now w),
                 d_action = c_action consensus,
                 d_reasoning = c_reasoning consensus,
                 votes = c_votes consensus,
                 executed = gate,
                 result = Some (if gate then fst (executeAction w (c_action consensus) (gather_context w h))
                                else ''Action not executed - HOLD consensus''),
                 timestamp = toISOString_decision w \<rparr>)"
    using assms
    by (cases "c_action ?c \<noteq> hold \<and> 2 \<le> approve (c_votes ?c)")
       (auto simp add: runAutonomousCycle_def Let_def case_prod_unfold)
  show "trades (runAutonomousCycle w h) =
           (let consensus = determineConsensusAction (runtime w) recs
            in if c_action consensus \<noteq> hold \<and> 2 \<le> approve (c_votes consensus)
               then snd (executeAction w (c_action consensus) (gather_context w h)) else [])"
    using assms
    by (cases "c_action ?c \<noteq> hold \<and> 2 \<le> approve (c_votes ?c)")
       (auto simp add: runAutonomousCycle_def Let_def case_prod_unfold)
  show "history (runAutonomousCycle w h) = take 100 (decision (runAutonomousCycle w h) # h)"
    using assms
    by (cases "c_action ?c \<noteq> hold \<and> 2 \<le> approve (c_votes ?c)")
       (auto simp add: runAutonomousCycle_def Let_def case_prod_unfold unshift_capped_take)
qed

lemma cycle_failure:
  assumes "ask_models w (gather_context w h) = Inl e"
  shows "decision (runAutonomousCycle w h) =
           \<lparr> d_id = ''auto-'' @ string_of_nat (Date_now w),
             d_action = hold,
             d_reasoning = ''Cycle aborted: AI deliberation failed - '' @ error_message e,
             votes = \<lparr> approve = 0, reject = 0, abstain = 3 \<rparr>,
             executed = False,
             result = Some (''ERROR: '' @ error_message e),
             timestamp = toISOString_decision w \<rparr>"
    and "trades (runAutonomousCycle w h) = []"
    and "history (runAutonomousCycle w h) = take 100 (decision (runAutonomousCycle w h) # h)"
  using assms by (simp_all add: runAutonomousCycle_def Let_def unshift_capped_take)

lemma cycle_votes_total:
  assumes "\<And>recs. ask_models w (gather_context w h) = Inr recs \<Longrightarrow>
             \<forall>r\<in>set recs. ToNumber (runtime w) (confidence r) \<noteq> None"
  shows "approve (votes (decision (runAutonomousCycle w h)))
   + reject (votes (decision (runAutonomousCycle w h)))
   + abstain (votes (decision (runAutonomousCycle w h))) = 3"
proof (cases "ask_models w (gather_context w h)")
  case (Inl e)
  then show ?thesis by (simp add: cycle_failure(1))
next
  case (Inr recs)
  have "length recs = 3" using ask_models_Inr(1) [OF Inr] .
  with votes_total [OF assms [OF Inr]] show ?thesis
    by (simp add: cycle_success(1) [OF Inr] Let_def)
qed

text \<open>
  Claim C7. If a voter invocation fails, the cycle produces the degraded decision: action
  \<open>hold\<close>, not executed, votes 0/0/3, the result and the reasoning carrying the message of
  a failed invocation; no trading call is made, and the decision is pushed to the front of
  the history, which is cut to 100 entries.
\<close>

theorem C7_degraded_decision:
  assumes "isl (getAIRecommendation w m (gather_context w h))"
  shows "\<exists>m' e. getAIRecommendation w m' (gather_context w h) = Inl e
           \<and> decision (runAutonomousCycle w h) =
                \<lparr> d_id = ''auto-'' @ string_of_nat (Date_now w),
                  d_action = hold,
                  d_reasoning = ''Cycle aborted: AI deliberation failed - '' @ error_message e,
                  votes = \<lparr> approve = 0, reject = 0, abstain = 3 \<rparr>,
                  executed = False,
                  result = Some (''ERROR: '' @ error_message e),
                  timestamp = toISOString_decision w \<rparr>
           \<and> trades (runAutonomousCycle w h) = []
           \<and> history (runAutonomousCycle w h) = take 100 (decision (runAutonomousCycle w h) # h)"
proof -
  from ask_models_fails [OF assms] obtain e where e: "ask_models w (gather_context w h) = Inl e"
    by blast
  from ask_models_Inl [OF e] obtain m' where "getAIRecommendation w m' (gather_context w h) = Inl e"
    by blast
  moreover from e have "decision (runAutonomousCycle w h) =
                \<lparr> d_id = ''auto-'' @ string_of_nat (Date_now w),
                  d_action = hold,
                  d_reasoning = ''Cycle aborted: AI deliberation failed - '' @ error_message e,
                  votes = \<lparr> approve = 0, reject = 0, abstain = 3 \<rparr>,
                  executed = False,
                  result = Some (''ERROR: '' @ error_message e),
                  timestamp = toISOString_decision w \<rparr>"
    by (simp add: runAutonomousCycle_def Let_def)
  moreover from e have "trades (runAutonomousCycle w h) = []"
    by (simp add: runAutonomousCycle_def Let_def)
  moreover from e have "history (runAutonomousCycle w h) = take 100 (decision (runAutonomousCycle w h) # h)"
    by (simp add: runAutonomousCycle_def Let_def unshift_capped_take)
  ultimately show ?thesis by blast
qed

text \<open>
  Claim C6. The decision of a cycle is marked executed exactly when its action is not
  \<open>hold\<close> and the approve count of its display tally is at least two; then the result and
  the trading calls are those of \<open>executeAction\<close>, otherwise no trading call is made. On
  success the approve count is the number of recommendations for the chosen action with
  confidence above 50.
\<close>

theorem C6_execution_gate:
  "executed (decision (runAutonomousCycle w h))
     = (d_action (decision (runAutonomousCycle w h)) \<noteq> hold
        \<and> 2 \<le> approve (votes (decision (runAutonomousCycle w h))))
   \<and> (\<not> executed (decision (runAutonomousCycle w h)) \<longrightarrow> trades (runAutonomousCycle w h) = [])
   \<and> (executed (decision (runAutonomousCycle w h)) \<longrightarrow>
        result (decision (runAutonomousCycle w h))
          = Some (fst (executeAction w (d_action (decision (runAutonomousCycle w h))) (gather_context w h)))
        \<and> trades (runAutonomousCycle w h)
          = snd (executeAction w (d_action (decision (runAutonomousCycle w h))) (gather_context w h)))
   \<and> (ask_models w (gather_context w h) = Inr recs \<longrightarrow>
        approve (votes (decision (runAutonomousCycle w h)))
          = length (filter (\<lambda>r. action r = d_action (decision (runAutonomousCycle w h))
                                \<and> exceeds (runtime w) (confidence r) 50) recs))"
proof (cases "ask_models w (gather_context w h)")
  case (Inl e)
  then show ?thesis by (simp add: cycle_failure)
next
  case (Inr rs)
  then show ?thesis
    by (simp add: cycle_success [OF Inr] c_votes_display Let_def)
qed

lemma scripted_reply:
  "getAIRecommendation (scripted_world script) m context =
     (case script m of
        Inl e \<Rightarrow> Inl e
      | Inr parsed \<Rightarrow>
          Inr \<lparr> model = m,
                action = (case p_action parsed of None \<Rightarrow> hold | Some a \<Rightarrow> a),
                reasoning = (case p_reasoning parsed of
                               None \<Rightarrow> ''No reasoning provided''
                             | Some t \<Rightarrow> if t = [] then ''No reasoning provided'' else t),
                confidence = (case p_confidence parsed of
                                None \<Rightarrow> JNumber 50
                              | Some v \<Rightarrow> if ToBoolean v then v else JNumber 50),
                amount = p_amount parsed \<rparr>)"
  by (cases m; cases "script m")
     (simp_all add: getAIRecommendation_def scripted_world_def match_braces_def)

text \<open>
  Instances: two votes for buyback and one for burn choose buyback; sell_partial, burn and
  buyback once each make buyback the leader of the loop and \<open>hold\<close> the chosen action.
\<close>

theorem C5_witness:
  "max_count sample_runtime [recommends grok buyback 80, recommends chatgpt buyback 60, recommends claude burn 90] = 2
   \<and> max_count sample_runtime [recommends grok sell_partial 80, recommends chatgpt burn 80, recommends claude buyback 80] = 1
   \<and> c_action (determineConsensusAction sample_runtime
      [recommends grok buyback 80, recommends chatgpt buyback 60, recommends claude burn 90]) = buyback
   \<and> fst (max_loop (count_loop sample_runtime
        [recommends grok sell_partial 80, recommends chatgpt burn 80, recommends claude buyback 80]
        actionCounts_init) (hold, 0)) = buyback
   \<and> c_action (determineConsensusAction sample_runtime
        [recommends grok sell_partial 80, recommends chatgpt burn 80, recommends claude buyback 80]) = hold"
proof -
  let ?A = "[recommends grok buyback 80, recommends chatgpt buyback 60, recommends claude burn 90]"
  let ?B = "[recommends grok sell_partial 80, recommends chatgpt burn 80, recommends claude buyback 80]"
  have mA: "max_count sample_runtime ?A = 2"
    by (simp add: max_count_def qualifying_def recommends_def recommends_value_def ACTION_KEYS_def)
  have mB: "max_count sample_runtime ?B = 1"
    by (simp add: max_count_def qualifying_def recommends_def recommends_value_def ACTION_KEYS_def)
  have qA: "find (\<lambda>a. qualifying sample_runtime ?A a = max_count sample_runtime ?A) ACTION_KEYS = Some buyback"
    unfolding mA by (simp add: qualifying_def recommends_def recommends_value_def ACTION_KEYS_def)
  have hB: "length ?B = 3 \<and> (\<forall>r\<in>set ?B. exceeds sample_runtime (confidence r) 30) \<and> distinct (map action ?B)"
    by (simp add: recommends_def recommends_value_def)
  have fB: "find (\<lambda>a. a \<in> set (map action ?B)) ACTION_KEYS = Some buyback"
    by (simp add: recommends_def recommends_value_def ACTION_KEYS_def)
  show ?thesis
    using C5_plurality_with_floor [of sample_runtime ?A] C5_plurality_with_floor [of sample_runtime ?B]
      mA mB qA hB fB
    by simp
qed

lemma buyback_replies:
  "ask_models (scripted_world buyback_script) context =
     Inr [recommends grok buyback 80, recommends chatgpt buyback 60, recommends claude hold 90]"
  by (simp add: ask_models_def scripted_reply payload_def payload_value_def recommends_def recommends_value_def)

lemma lukewarm_replies:
  "ask_models (scripted_world lukewarm_script) context =
     Inr [recommends grok buyback 50, recommends chatgpt buyback 60, recommends claude hold 90]"
  by (simp add: ask_models_def scripted_reply payload_def payload_value_def recommends_def recommends_value_def)

text \<open>
  Instances: two confident votes for buyback execute one purchase; with one of the two at
  confidence 50 the action is still buyback, the approve count is 1 and nothing is executed.
\<close>

theorem C6_witness:
  "executed (decision (runAutonomousCycle (scripted_world buyback_script) []))
   \<and> d_action (decision (runAutonomousCycle (scripted_world buyback_script) [])) = buyback
   \<and> approve (votes (decision (runAutonomousCycle (scripted_world buyback_script) []))) = 2
   \<and> trades (runAutonomousCycle (scripted_world buyback_script) []) = [buyToken ''MintAddr'' (1 / 10)]
   \<and> \<not> executed (decision (runAutonomousCycle (scripted_world lukewarm_script) []))
   \<and> d_action (decision (runAutonomousCycle (scripted_world lukewarm_script) [])) = buyback
   \<and> approve (votes (decision (runAutonomousCycle (scripted_world lukewarm_script) []))) = 1
   \<and> trades (runAutonomousCycle (scripted_world lukewarm_script) []) = []"
proof -
  let ?good = "runAutonomousCycle (scripted_world buyback_script) []"
  let ?weak = "runAutonomousCycle (scripted_world lukewarm_script) []"
  have g1: "d_action (decision ?good) = buyback"
    by (simp add: cycle_success(1) [OF buyback_replies] determineConsensusAction_def recommends_def recommends_value_def
          actionCounts_init_def ACTION_KEYS_def increment_def Let_def)
  have g2: "length (filter (\<lambda>r. action r = buyback \<and> exceeds js (confidence r) 50)
              [recommends grok buyback 80, recommends chatgpt buyback 60, recommends claude hold 90]) = 2"
    for js
    by (simp add: recommends_def recommends_value_def)
  have g3: "snd (executeAction (scripted_world buyback_script) buyback
              (gather_context (scripted_world buyback_script) [])) = [buyToken ''MintAddr'' (1 / 10)]"
    by (simp add: executeAction_def gather_context_def scripted_world_def Let_def)
  have w1: "d_action (decision ?weak) = buyback"
    by (simp add: cycle_success(1) [OF lukewarm_replies] determineConsensusAction_def recommends_def recommends_value_def
          actionCounts_init_def ACTION_KEYS_def increment_def Let_def)
  have w2: "length (filter (\<lambda>r. action r = buyback \<and> exceeds js (confidence r) 50)
              [recommends grok buyback 50, recommends chatgpt buyback 60, recommends claude hold 90]) = 1"
    for js
    by (simp add: recommends_def recommends_value_def)
  note G = C6_execution_gate [of "scripted_world buyback_script" "[]"
            "[recommends grok buyback 80, recommends chatgpt buyback 60, recommends claude hold 90]"]
  note L = C6_execution_gate [of "scripted_world lukewarm_script" "[]"
            "[recommends grok buyback 50, recommends chatgpt buyback 60, recommends claude hold 90]"]
  from G buyback_replies have "approve (votes (decision ?good)) =
      length (filter (\<lambda>r. action r = d_action (decision ?good)
                                \<and> exceeds (runtime (scripted_world buyback_script)) (confidence r) 50)
        [recommends grok buyback 80, recommends chatgpt buyback 60, recommends claude hold 90])"
    by blast
  then have g4: "approve (votes (decision ?good)) = 2"
    unfolding g1 g2 .
  from G have "executed (decision ?good)
     = (d_action (decision ?good) \<noteq> hold \<and> 2 \<le> approve (votes (decision ?good)))"
    by blast
  then have g5: "executed (decision ?good)"
    unfolding g1 g4 by simp
  from G g5 have "trades ?good
     = snd (executeAction (scripted_world buyback_script) (d_action (decision ?good))
         (gather_context (scripted_world buyback_script) []))"
    by blast
  then have g6: "trades ?good = [buyToken ''MintAddr'' (1 / 10)]"
    unfolding g1 g3 .
  from L lukewarm_replies have "approve (votes (decision ?weak)) =
      length (filter (\<lambda>r. action r = d_action (decision ?weak)
                                \<and> exceeds (runtime (scripted_world lukewarm_script)) (confidence r) 50)
        [recommends grok buyback 50, recommends chatgpt buyback 60, recommends claude hold 90])"
    by blast
  then have w4: "approve (votes (decision ?weak)) = 1"
    unfolding w1 w2 .
  from L have "executed (decision ?weak)
     = (d_action (decision ?weak) \<noteq> hold \<and> 2 \<le> approve (votes (decision ?weak)))"
    by blast
  then have w5: "\<not> executed (decision ?weak)"
    unfolding w1 w4 by simp
  from L w5 have w6: "trades ?weak = []"
    by blast
  from g1 g4 g5 g6 w1 w4 w5 w6 show ?thesis
    by blast
qed

text \<open>An instance: the second voter is rejected with a rate-limit error.\<close>

theorem C7_witness:
  "decision (runAutonomousCycle (scripted_world failing_script) []) =
      \<lparr> d_id = ''auto-1735776000000'',
        d_action = hold,
        d_reasoning = ''Cycle aborted: AI deliberation failed - 429 rate limit'',
        votes = \<lparr> approve = 0, reject = 0, abstain = 3 \<rparr>,
        executed = False,
        result = Some ''ERROR: 429 rate limit'',
        timestamp = ''2025-01-02T00:00:01.000Z'' \<rparr>
   \<and> history (runAutonomousCycle (scripted_world failing_script) [])
        = [decision (runAutonomousCycle (scripted_world failing_script) [])]"
proof -
  let ?w = "scripted_world failing_script"
  have fails: "isl (getAIRecommendation ?w chatgpt (gather_context ?w []))"
    by (simp add: scripted_reply)
  have only: "getAIRecommendation ?w m' (gather_context ?w []) = Inl e \<Longrightarrow> e = JSError ''429 rate limit''"
    for m' e
    by (cases m') (simp_all add: scripted_reply payload_def payload_value_def)
  have stamp: "Date_now ?w = 1735776000000" "toISOString_decision ?w = ''2025-01-02T00:00:01.000Z''"
    by (simp_all add: scripted_world_def)
  have digits: "string_of_nat 1735776000000 = ''1735776000000''"
    by (simp add: digit_char_def)
  from C7_degraded_decision [OF fails] obtain m' e where
    src: "getAIRecommendation ?w m' (gather_context ?w []) = Inl e"
    and dec: "decision (runAutonomousCycle ?w []) =
                \<lparr> d_id = ''auto-'' @ string_of_nat (Date_now ?w),
                  d_action = hold,
                  d_reasoning = ''Cycle aborted: AI deliberation failed - '' @ error_message e,
                  votes = \<lparr> approve = 0, reject = 0, abstain = 3 \<rparr>,
                  executed = False,
                  result = Some (''ERROR: '' @ error_message e),
                  timestamp = toISOString_decision ?w \<rparr>"
    and hist: "history (runAutonomousCycle ?w []) = take 100 (decision (runAutonomousCycle ?w []) # [])"
    by blast
  have e: "e = JSError ''429 rate limit''" using only [OF src] .
  have "decision (runAutonomousCycle ?w []) =
      \<lparr> d_id = ''auto-1735776000000'',
        d_action = hold,
        d_reasoning = ''Cycle aborted: AI deliberation failed - 429 rate limit'',
        votes = \<lparr> approve = 0, reject = 0, abstain = 3 \<rparr>,
        executed = False,
        result = Some ''ERROR: 429 rate limit'',
        timestamp = ''2025-01-02T00:00:01.000Z'' \<rparr>"
    unfolding dec e stamp digits by simp
  moreover have "history (runAutonomousCycle ?w []) = [decision (runAutonomousCycle ?w [])]"
    unfolding hist by simp
  ultimately show ?thesis by blast
qed

lemma vague_replies:
  "ask_models (scripted_world vague_script) context =
     Inr [recommends grok buyback 80, recommends chatgpt buyback 60,
          recommends_value claude hold (JString ''high'')]"
  by (simp add: ask_models_def scripted_reply payload_def payload_value_def recommends_def
        recommends_value_def)

lemma high_has_no_number: "ToNumber sample_runtime (JString ''high'') = None"
  by (simp add: sample_runtime_def decimal_number_def digit_of_def)

text \<open>
  Claim C10: every decision produced by \<open>runAutonomousCycle\<close> has a vote tally whose
  approve, reject and abstain counts sum to three. This holds on abort and whenever each
  confidence has a number (\<open>cycle_votes_total\<close>), but \<open>getAIRecommendation\<close> stores the
  parsed confidence without checking that it is a number. When the third voter answers
  with the confidence \<open>high\<close>, that recommendation is neither above 50 nor at most 50: it
  is counted in no category, and the recorded votes are 2/0/0, which sum to two.
\<close>

theorem C10_non_numeric_confidence_votes:
  "votes (decision (runAutonomousCycle (scripted_world vague_script) []))
     = \<lparr> approve = 2, reject = 0, abstain = 0 \<rparr>
   \<and> approve (votes (decision (runAutonomousCycle (scripted_world vague_script) [])))
     + reject (votes (decision (runAutonomousCycle (scripted_world vague_script) [])))
     + abstain (votes (decision (runAutonomousCycle (scripted_world vague_script) []))) = 2"
proof -
  let ?recs = "[recommends grok buyback 80, recommends chatgpt buyback 60,
                recommends_value claude hold (JString ''high'')]"
  have rt: "runtime (scripted_world vague_script) = sample_runtime"
    by (simp add: scripted_world_def)
  have no_gt: "\<not> exceeds sample_runtime (JString ''high'') k" for k
    using high_has_no_number by (simp add: exceeds_def)
  have no_le: "\<not> at_most sample_runtime (JString ''high'') k" for k
    using high_has_no_number by (simp add: at_most_def)
  have act: "c_action (determineConsensusAction sample_runtime ?recs) = buyback"
    by (simp add: determineConsensusAction_def recommends_def recommends_value_def no_gt
          actionCounts_init_def ACTION_KEYS_def increment_def Let_def)
  have "c_votes (determineConsensusAction sample_runtime ?recs)
      = \<lparr> approve = 2, reject = 0, abstain = 0 \<rparr>"
    unfolding c_votes_display act
    by (simp add: recommends_def recommends_value_def no_gt no_le)
  then have "votes (decision (runAutonomousCycle (scripted_world vague_script) []))
      = \<lparr> approve = 2, reject = 0, abstain = 0 \<rparr>"
    by (simp add: cycle_success(1) [OF vague_replies] rt Let_def)
  then show ?thesis by simp
qed

section \<open>Storage: properties\<close>













lemma aiResponses_logActivity [simp]:
  "aiResponses (logActivity s ty did dtitle oc meta uuid now) = aiResponses s"
  by (simp add: logActivity_def)















section \<open>Confidence of a vote: properties\<close>

lemma strip_sample: \<open>strip_fences sample_content = ''{"vote":"approve","confidence":150}''\<close>
  by (simp add: strip_fences_def sample_content_def trim_def is_white_space_def startsWith_def
        endsWith_def fence_def Let_def)

lemma parseInt_150: "parseInt ''150'' = Some 150"
  by (simp add: parseInt_def is_white_space_def strip_prefix_def digit_of_def digits_value_def Let_def)

lemma parseInt_high: "parseInt ''high'' = None"
  by (simp add: parseInt_def is_white_space_def strip_prefix_def digit_of_def digits_value_def Let_def)

lemma parseInt_examples:
  "parseInt ''  -42px'' = Some (- 42)" "parseInt ''0x1F'' = Some 31" "parseInt ''85.5'' = Some 85"
  "parseInt ''undefined'' = None" "parseInt ''0'' = Some 0" "parseInt ''+7'' = Some 7"
  by (simp_all add: parseInt_def is_white_space_def strip_prefix_def digit_of_def digits_value_def Let_def)

lemma clamp_confidence_range: "0 \<le> clamp_confidence field \<and> clamp_confidence field \<le> 100"
  by (simp add: clamp_confidence_def)

lemma clamp_confidence_cases:
  "clamp_confidence field =
     (case parseInt field of
        None \<Rightarrow> 50
      | Some n \<Rightarrow> if n = 0 then 50 else if n < 0 then 0 else if 100 < n then 100 else n)"
  by (simp add: clamp_confidence_def split: option.splits)

text \<open>
  Claim C9, as stated: on both paths the confidence lies in the interval from 0 to 100,
  and a value outside it is replaced by 50. A confidence of 150 becomes 100 in
  \<open>parseAIResponse\<close>, not 50, and stays 150 in \<open>getAIRecommendation\<close>.
\<close>

theorem C9_out_of_range_counterexample:
  "pv_confidence (parseAIResponse sample_JSON_parse sample_content) = 100
   \<and> getAIRecommendation (scripted_world overconfident_script) grok
        (gather_context (scripted_world overconfident_script) []) = Inr (recommends grok buyback 150)"
  by (simp add: parseAIResponse_def strip_sample sample_JSON_parse_def clamp_confidence_def
        parseInt_150 scripted_reply payload_def payload_value_def recommends_def recommends_value_def)

text \<open>
  Claim C9, amended. On the manual deliberation path the confidence of a response lies in
  the interval from 0 to 100. When the response is parsed, a confidence field in which
  \<^verbatim>\<open>parseInt\<close> reads no number, or reads 0, gives the default 50, and a number outside the
  interval is cut to the nearer bound, 0 or 100; when the response cannot be parsed the
  confidence is 50.
\<close>

theorem C9_manual_confidence:
  "0 \<le> pv_confidence (parseAIResponse json_parse content)
   \<and> pv_confidence (parseAIResponse json_parse content) \<le> 100
   \<and> (json_parse (strip_fences content) = Inr parsed \<longrightarrow>
        pv_confidence (parseAIResponse json_parse content) =
          (case parseInt (f_confidence parsed) of
             None \<Rightarrow> 50
           | Some n \<Rightarrow> if n = 0 then 50 else if n < 0 then 0 else if 100 < n then 100 else n))
   \<and> (isl (json_parse (strip_fences content)) \<longrightarrow>
        pv_confidence (parseAIResponse json_parse content) = 50)
   \<and> (getModelResponse chat json_parse m = Inr r \<longrightarrow> 0 \<le> r_confidence r \<and> r_confidence r \<le> 100)"
proof -
  have range: "0 \<le> pv_confidence (parseAIResponse jp c) \<and> pv_confidence (parseAIResponse jp c) \<le> 100"
    for jp c
    by (cases "jp (strip_fences c)") (simp_all add: parseAIResponse_def clamp_confidence_range)
  have parsed: "json_parse (strip_fences content) = Inr parsed \<longrightarrow>
        pv_confidence (parseAIResponse json_parse content) =
          (case parseInt (f_confidence parsed) of
             None \<Rightarrow> 50
           | Some n \<Rightarrow> if n = 0 then 50 else if n < 0 then 0 else if 100 < n then 100 else n)"
    by (simp add: parseAIResponse_def clamp_confidence_cases)
  have failed: "isl (json_parse (strip_fences content)) \<longrightarrow>
        pv_confidence (parseAIResponse json_parse content) = 50"
    by (cases "json_parse (strip_fences content)") (simp_all add: parseAIResponse_def)
  have response: "getModelResponse chat json_parse m = Inr r \<longrightarrow> 0 \<le> r_confidence r \<and> r_confidence r \<le> 100"
  proof
    assume ok: "getModelResponse chat json_parse m = Inr r"
    then obtain c where "r_confidence r = pv_confidence (parseAIResponse json_parse c)"
      by (auto simp: getModelResponse_def split: sum.splits if_splits)
    with range [of json_parse c] show "0 \<le> r_confidence r \<and> r_confidence r \<le> 100" by simp
  qed
  from range [of json_parse content] parsed failed response show ?thesis by blast
qed

text \<open>
  Instances: a fenced reply with confidence 150 gives 100; a reply that is not JSON gives
  50; a reply whose confidence is the word \<open>high\<close> gives 50.
\<close>

theorem C9_witness:
  "pv_confidence (parseAIResponse sample_JSON_parse sample_content) = 100
   \<and> pv_confidence (parseAIResponse sample_JSON_parse ''I abstain.'') = 50
   \<and> getModelResponse sample_chat sample_JSON_parse chatgpt =
        Inr \<lparr> r_model = chatgpt, vote = Reject, r_reasoning = ''No reasoning provided'',
              r_confidence = 50, risks = [], recommendations = [] \<rparr>"
proof -
  let ?p = "\<lparr> f_vote = Some ''approve'', f_reasoning = None, f_confidence = ''150'',
              f_risks = None, f_recommendations = None \<rparr>"
  let ?r = "\<lparr> r_model = chatgpt, vote = Reject, r_reasoning = ''No reasoning provided'',
              r_confidence = 50, risks = [], recommendations = [] \<rparr>"
  have parsed: "sample_JSON_parse (strip_fences sample_content) = Inr ?p"
    by (simp add: strip_sample sample_JSON_parse_def)
  have plain: "strip_fences ''I abstain.'' = ''I abstain.''"
    by (simp add: strip_fences_def trim_def is_white_space_def startsWith_def endsWith_def
          fence_def Let_def)
  have failed: "isl (sample_JSON_parse (strip_fences ''I abstain.''))"
    unfolding plain by (simp add: sample_JSON_parse_def)
  have bare: \<open>strip_fences ''{"vote":"reject","confidence":"high"}'' = ''{"vote":"reject","confidence":"high"}''\<close>
    by (simp add: strip_fences_def trim_def is_white_space_def startsWith_def endsWith_def
          fence_def Let_def)
  have answer: "getModelResponse sample_chat sample_JSON_parse chatgpt = Inr ?r"
    by (simp add: getModelResponse_def parseAIResponse_def bare sample_JSON_parse_def
          vote_of_field_def clamp_confidence_def parseInt_high)
  from C9_manual_confidence [of sample_JSON_parse sample_content ?p sample_chat chatgpt ?r] parsed
  have "pv_confidence (parseAIResponse sample_JSON_parse sample_content) =
          (case parseInt (f_confidence ?p) of
             None \<Rightarrow> 50
           | Some n \<Rightarrow> if n = 0 then 50 else if n < 0 then 0 else if 100 < n then 100 else n)"
    by blast
  then have one: "pv_confidence (parseAIResponse sample_JSON_parse sample_content) = 100"
    by (simp add: parseInt_150)
  from C9_manual_confidence [of sample_JSON_parse "''I abstain.''" ?p sample_chat chatgpt ?r] failed
  have two: "pv_confidence (parseAIResponse sample_JSON_parse ''I abstain.'') = 50"
    by blast
  from one two answer show ?thesis by blast
qed

end
